theory Spec2Isabelle
  imports Main "HOL-Library.AList" "HOL-Library.Char_ord" "HOL-Library.List_Lexorder"
    "HOL-Library.Sublist"
begin

section \<open>Strings and exceptions\<close>

text \<open>
  A Python \<open>str\<close> is represented by the bytes of its UTF-8 encoding, one \<open>char\<close> per
  byte. The separators the program looks for (\<open>/\<close> and \<open>.\<close>) are ASCII, so searching
  and slicing at them agrees on bytes and on code points, and the byte order of UTF-8
  is the code point order that Python compares strings by.
\<close>

datatype exn =
    ValueError string
  | RuntimeError string
  | ApiError string
  | AuthError string
  | SystemExit string
  | OSError string
  | OtherError string

text \<open>\<open>sep.join(xs)\<close> and \<open>s.split(sep)\<close> for a one-character separator.\<close>

fun join :: "char \<Rightarrow> string list \<Rightarrow> string" where
  "join c [] = []"
| "join c [x] = x"
| "join c (x # y # ys) = x @ c # join c (y # ys)"

fun split :: "char \<Rightarrow> string \<Rightarrow> string list" where
  "split c [] = [[]]"
| "split c (x # xs) =
     (if x = c then [] # split c xs
      else (case split c xs of [] \<Rightarrow> [[x]] | y # ys \<Rightarrow> (x # y) # ys))"

section \<open>pathlib: pure paths of the POSIX flavour\<close>

text \<open>
  A \<open>PurePosixPath\<close> is its root (\<open>''''\<close>, \<open>''/''\<close> or \<open>''//''\<close>) and the names below it.
  Python's \<open>parts\<close> is the root, when there is one, followed by the names.
\<close>

record path =
  root :: string
  names :: "string list"

definition cparts :: "path \<Rightarrow> string list" where
  "cparts p = (if root p = [] then names p else root p # names p)"

definition is_absolute :: "path \<Rightarrow> bool" where
  "is_absolute p \<longleftrightarrow> root p \<noteq> []"

text \<open>\<open>splitroot\<close>: exactly two leading slashes are kept, any other number is one.\<close>

definition splitroot :: "string \<Rightarrow> string \<times> string" where
  "splitroot part =
     (if part \<noteq> [] \<and> hd part = CHR ''/'' then
        (let stripped = dropWhile (\<lambda>c. c = CHR ''/'') part in
         if length part - length stripped = 2 then (''//'', stripped) else (''/'', stripped))
      else ([], part))"

text \<open>\<open>Path(s)\<close> for one string: empty components and \<open>.\<close> are dropped, \<open>..\<close> is kept.\<close>

definition parse_path :: "string \<Rightarrow> path" where
  "parse_path s =
     (let (r, rel) = splitroot s in
      \<lparr> root = r, names = filter (\<lambda>x. x \<noteq> [] \<and> x \<noteq> ''.'') (split CHR ''/'' rel) \<rparr>)"

text \<open>\<open>str(p)\<close>, which on this flavour is also \<open>p.as_posix()\<close>.\<close>

definition str_path :: "path \<Rightarrow> string" where
  "str_path p = (let s = root p @ join CHR ''/'' (names p) in if s = [] then ''.'' else s)"

definition as_posix :: "path \<Rightarrow> string" where
  "as_posix p = str_path p"

text \<open>\<open>p / q\<close>: an absolute right operand replaces the left one.\<close>

definition joinpath :: "path \<Rightarrow> path \<Rightarrow> path" where
  "joinpath p q =
     (if root q \<noteq> [] then q else \<lparr> root = root p, names = names p @ names q \<rparr>)"

text \<open>
  \<open>p.relative_to(q)\<close>: the parts of \<open>q\<close> must be the leading parts of \<open>p\<close>, roots
  included; the result is the relative path of the remaining names.
\<close>

definition relative_to :: "path \<Rightarrow> path \<Rightarrow> exn + path" where
  "relative_to p q =
     (if root p = root q \<and> take (length (names q)) (names p) = names q
      then Inr \<lparr> root = [], names = drop (length (names q)) (names p) \<rparr>
      else Inl (ValueError (str_path p @ '' is not in the subpath of '' @ str_path q)))"

text \<open>The names that parsing produces: not empty, not \<open>.\<close>, without a slash.\<close>

definition wf_name :: "string \<Rightarrow> bool" where
  "wf_name x \<longleftrightarrow> x \<noteq> [] \<and> x \<noteq> ''.'' \<and> CHR ''/'' \<notin> set x"

definition wf_path :: "path \<Rightarrow> bool" where
  "wf_path p \<longleftrightarrow> root p \<in> {[], ''/'', ''//''} \<and> list_all wf_name (names p)"

section \<open>The path resolver\<close>

text \<open>
  \<open>Path.resolve()\<close> reads the working directory and the symbolic links of the machine;
  it is a parameter of the model.
\<close>

definition compute_remote_path :: "(path \<Rightarrow> path) \<Rightarrow> path \<Rightarrow> path \<Rightarrow> exn + string" where
  "compute_remote_path resolve local_file dropbox_root =
     (case relative_to (resolve local_file) (resolve dropbox_root) of
        Inl _ \<Rightarrow>
          Inl (RuntimeError
                (str_path local_file @ '' is not inside the Dropbox root '' @ str_path dropbox_root))
      | Inr relative \<Rightarrow> Inr (''/'' @ as_posix relative))"

text \<open>
  \<open>p.parent\<close>, \<open>p.name\<close>, \<open>p.suffix\<close> and \<open>p.with_suffix(suffix)\<close>. The suffix of a
  name starts at its last dot, unless that dot is the first or the last character.
\<close>

definition parent :: "path \<Rightarrow> path" where
  "parent p = p\<lparr> names := butlast (names p) \<rparr>"

definition name_of :: "path \<Rightarrow> string" where
  "name_of p = (if names p = [] then [] else last (names p))"

definition rfind :: "char \<Rightarrow> string \<Rightarrow> int" where
  "rfind c s =
     (if c \<in> set s then int (length s) - 1 - int (length (takeWhile (\<lambda>x. x \<noteq> c) (rev s)))
      else - 1)"

definition suffix_of :: "string \<Rightarrow> string" where
  "suffix_of name =
     (let i = rfind CHR ''.'' name in
      if 0 < i \<and> i < int (length name) - 1 then drop (nat i) name else [])"

definition with_suffix :: "path \<Rightarrow> string \<Rightarrow> exn + path" where
  "with_suffix p sfx =
     (if CHR ''/'' \<in> set sfx then Inl (ValueError (''Invalid suffix '' @ sfx))
      else if (sfx \<noteq> [] \<and> hd sfx \<noteq> CHR ''.'') \<or> sfx = ''.''
        then Inl (ValueError (''Invalid suffix '' @ sfx))
      else
        (let name = name_of p in
         if name = [] then Inl (ValueError (str_path p @ '' has an empty name''))
         else
           (let old_suffix = suffix_of name;
                name' = (if old_suffix = [] then name @ sfx
                         else take (length name - length old_suffix) name @ sfx)
            in Inr (p\<lparr> names := butlast (names p) @ [name'] \<rparr>))))"

text \<open>
  \<open>p.expanduser()\<close>; \<open>os_expanduser\<close> is \<open>os.path.expanduser\<close> on the first name, which
  returns its argument unchanged when it finds no home directory.
\<close>

definition expanduser :: "(string \<Rightarrow> string) \<Rightarrow> path \<Rightarrow> exn + path" where
  "expanduser os_expanduser p =
     (if root p = [] \<and> names p \<noteq> [] \<and> take 1 (hd (names p)) = ''~'' then
        (let homedir = os_expanduser (hd (names p)) in
         if take 1 homedir = ''~''
         then Inl (RuntimeError ''Could not determine home directory.'')
         else Inr (joinpath (parse_path homedir) \<lparr> root = [], names = tl (names p) \<rparr>))
      else Inr p)"

text \<open>\<open>fnmatch(name, pat)\<close> for patterns of literal characters, \<open>*\<close> and \<open>?\<close>.\<close>

fun fnmatch :: "string \<Rightarrow> string \<Rightarrow> bool" where
  "fnmatch s [] = (s = [])"
| "fnmatch s (p # ps) =
     (if p = CHR ''*'' then
        fnmatch s ps \<or> (case s of [] \<Rightarrow> False | _ # s' \<Rightarrow> fnmatch s' (p # ps))
      else if p = CHR ''?'' then (case s of [] \<Rightarrow> False | _ # s' \<Rightarrow> fnmatch s' ps)
      else (case s of [] \<Rightarrow> False | c # s' \<Rightarrow> c = p \<and> fnmatch s' ps))"

section \<open>The export requester\<close>

subsection \<open>Decoding UTF-8\<close>

text \<open>
  \<open>utf8_scan\<close> looks at the sequence that starts the input, as the decoder of CPython
  does: it answers whether that sequence is well formed and how many bytes it spans; for
  an ill-formed one, the bytes that form one error (a bad start byte, the bytes before a
  bad continuation byte, or a sequence cut off by the end of the input).
\<close>

definition is_continuation :: "char \<Rightarrow> bool" where
  "is_continuation c \<longleftrightarrow> (0x80::nat) \<le> of_char c \<and> of_char c < (0xC0::nat)"

definition utf8_scan :: "string \<Rightarrow> bool \<times> nat" where
  "utf8_scan s =
     (case s of
        [] \<Rightarrow> (True, 0)
      | c # s1 \<Rightarrow>
          (let ch = (of_char c :: nat) in
           if ch < 0x80 then (True, 1)
           else if ch < 0xC2 then (False, 1)
           else if ch < 0xE0 then
             (case s1 of
                [] \<Rightarrow> (False, 1)
              | c2 # _ \<Rightarrow> if is_continuation c2 then (True, 2) else (False, 1))
           else if ch < 0xF0 then
             (case s1 of
                [] \<Rightarrow> (False, 1)
              | c2 # s2 \<Rightarrow>
                  if \<not> is_continuation c2
                     \<or> (if of_char c2 < (0xA0::nat) then ch = 0xE0 else ch = 0xED)
                  then (False, 1)
                  else
                    (case s2 of
                       [] \<Rightarrow> (False, 2)
                     | c3 # _ \<Rightarrow> if is_continuation c3 then (True, 3) else (False, 2)))
           else if ch < 0xF5 then
             (case s1 of
                [] \<Rightarrow> (False, 1)
              | c2 # s2 \<Rightarrow>
                  if \<not> is_continuation c2
                     \<or> (if of_char c2 < (0x90::nat) then ch = 0xF0 else ch = 0xF4)
                  then (False, 1)
                  else
                    (case s2 of
                       [] \<Rightarrow> (False, 2)
                     | c3 # s3 \<Rightarrow>
                         if \<not> is_continuation c3 then (False, 2)
                         else
                           (case s3 of
                              [] \<Rightarrow> (False, 3)
                            | c4 # _ \<Rightarrow>
                                if is_continuation c4 then (True, 4) else (False, 3))))
           else (False, 1)))"

text \<open>
  \<open>content.decode("utf-8")\<close> is \<open>None\<close> where Python raises \<open>UnicodeDecodeError\<close>;
  \<open>content.decode("utf-8", errors="replace")\<close> puts U+FFFD, here its three bytes, in
  the place of every error. A scan spans at least one byte, so the rest of the input
  after a scan of \<open>n\<close> bytes of \<open>c # s\<close> is \<open>drop (n - 1) s\<close>.
\<close>

definition replacement_character :: string where
  "replacement_character = [CHR 0xEF, CHR 0xBF, CHR 0xBD]"

fun decode_strict :: "string \<Rightarrow> string option" where
  "decode_strict [] = Some []"
| "decode_strict (c # s) =
     (let (ok, n) = utf8_scan (c # s) in
      if ok then map_option (\<lambda>t. take n (c # s) @ t) (decode_strict (drop (n - 1) s))
      else None)"

fun decode_replace :: "string \<Rightarrow> string" where
  "decode_replace [] = []"
| "decode_replace (c # s) =
     (let (ok, n) = utf8_scan (c # s) in
      (if ok then take n (c # s) else replacement_character) @ decode_replace (drop (n - 1) s))"

subsection \<open>\<open>export_paper\<close>\<close>

text \<open>
  \<open>s.rsplit(sep, 1)\<close>: the string cut at its last separator, or the string alone.
\<close>

definition rsplit1 :: "char \<Rightarrow> string \<Rightarrow> string list" where
  "rsplit1 c s =
     (if c \<in> set s
      then [rev (drop 1 (dropWhile (\<lambda>x. x \<noteq> c) (rev s))), rev (takeWhile (\<lambda>x. x \<noteq> c) (rev s))]
      else [s])"

text \<open>
  The metadata object of the remote answer: \<open>name\<close> is \<open>None\<close> when the object has no
  attribute of that name, and otherwise the attribute as the heading prints it.
\<close>

record metadata =
  name :: "string option"

text \<open>
  The client of the remote service is a parameter: given the state of the service, the
  remote path and the format, \<open>files_export\<close> raises or returns metadata and content,
  and leaves the service in a new state.
\<close>

type_synonym 'r client = "'r \<Rightarrow> string \<Rightarrow> string \<Rightarrow> (exn + metadata \<times> string) \<times> 'r"

definition export_paper :: "'r client \<Rightarrow> string \<Rightarrow> string \<Rightarrow> 'r \<Rightarrow> (exn + string) \<times> 'r" where
  "export_paper files_export remote_path export_format r =
     (case files_export r remote_path export_format of
        (Inl e, r') \<Rightarrow>
          (case e of
             ApiError error \<Rightarrow> (Inl (RuntimeError (''Dropbox export failed: '' @ error)), r')
           | _ \<Rightarrow> (Inl e, r'))
      | (Inr (md, content), r') \<Rightarrow>
          (let text = (case decode_strict content of
                         Some t \<Rightarrow> t
                       | None \<Rightarrow> decode_replace content);
               title = (case name md of
                          Some n \<Rightarrow> n
                        | None \<Rightarrow> last (rsplit1 CHR ''/'' remote_path));
               suffix = (if export_format \<noteq> [] then '' (exported as '' @ export_format @ '')''
                         else [])
           in (Inr (''# '' @ title @ suffix @ [CHR 0x0A, CHR 0x0A] @ text), r')))"

section \<open>The file system\<close>

text \<open>
  The file system is a store from paths to nodes, indexed by the path as written:
  what symbolic links, \<open>..\<close> and the working directory make of a path is left to
  \<open>resolve\<close>. A path without names (\<open>.\<close> or a root) is a directory that always exists.
\<close>

datatype node = Dir | File string

type_synonym filesystem = "(path \<times> node) list"

definition lookup :: "filesystem \<Rightarrow> path \<Rightarrow> node option" where
  "lookup fs p = (if names p = [] then Some Dir else map_of fs p)"

definition is_dir :: "filesystem \<Rightarrow> path \<Rightarrow> bool" where
  "is_dir fs p \<longleftrightarrow> lookup fs p = Some Dir"

text \<open>
  \<open>p.mkdir(parents=True, exist_ok=True)\<close>: an existing directory is left alone, a file
  in the way is an error, and missing ancestors are made first.
\<close>

function mkdir :: "filesystem \<Rightarrow> path \<Rightarrow> exn + filesystem" where
  "mkdir fs p =
     (case lookup fs p of
        Some Dir \<Rightarrow> Inr fs
      | Some (File _) \<Rightarrow> Inl (OSError (''File exists: '' @ str_path p))
      | None \<Rightarrow>
          (case mkdir fs (parent p) of
             Inl e \<Rightarrow> Inl e
           | Inr fs' \<Rightarrow> Inr (AList.update p Dir fs')))"
  by pat_completeness auto
termination
proof (relation "measure (\<lambda>(fs, p). length (names p))")
  show "wf (measure (\<lambda>(fs, p). length (names p)))" by simp
next
  fix fs :: filesystem and p :: path
  assume "lookup fs p = None"
  then have "names p \<noteq> []" by (auto simp add: lookup_def split: if_splits)
  then show "((fs, parent p), (fs, p)) \<in> measure (\<lambda>(fs, p). length (names p))"
    by (simp add: parent_def)
qed

text \<open>
  \<open>p.write_text(content, encoding="utf-8")\<close>: the parent must be a directory and \<open>p\<close>
  must not be one; the file is created or replaced.
\<close>

definition write_text :: "filesystem \<Rightarrow> path \<Rightarrow> string \<Rightarrow> exn + filesystem" where
  "write_text fs p content =
     (case lookup fs p of
        Some Dir \<Rightarrow> Inl (OSError (''Is a directory: '' @ str_path p))
      | _ \<Rightarrow>
          if lookup fs (parent p) = Some Dir then Inr (AList.update p (File content) fs)
          else Inl (OSError (''No such file or directory: '' @ str_path p)))"

text \<open>
  \<open>r.rglob(pat)\<close>: the entries strictly below \<open>r\<close> whose name matches the pattern, each
  once, in the order in which the file system lists them.
\<close>

definition rglob :: "filesystem \<Rightarrow> path \<Rightarrow> string \<Rightarrow> path list" where
  "rglob fs r pat =
     filter (\<lambda>p. root p = root r \<and> strict_prefix (names r) (names p) \<and> fnmatch (name_of p) pat)
       (remdups (map fst fs))"

section \<open>The batch driver\<close>

text \<open>\<open>sorted\<close> compares paths by their parts; it is a stable sort.\<close>

definition iter_paper_files :: "filesystem \<Rightarrow> path \<Rightarrow> path list" where
  "iter_paper_files fs r = sort_key cparts (rglob fs r ''*.paper'')"

record args =
  args_paper_dir :: path
  args_output_dir :: path
  args_dropbox_token :: "string option"
  args_dropbox_root :: path
  args_format :: string

text \<open>
  What the program reads from the machine and cannot change: path resolution, home
  directories, the environment variables, and the clients that \<open>dropbox.Dropbox(token)\<close>
  builds.
\<close>

record 'r env =
  resolve :: "path \<Rightarrow> path"
  os_expanduser :: "string \<Rightarrow> string"
  environ :: "string \<Rightarrow> string option"
  Dropbox :: "string \<Rightarrow> 'r client"

text \<open>What the program changes: the lines printed, the file system, the remote service.\<close>

record 'r world =
  stdout :: "string list"
  fs :: filesystem
  remote :: 'r

definition print :: "string \<Rightarrow> 'r world \<Rightarrow> 'r world" where
  "print line w = w\<lparr> stdout := stdout w @ [line] \<rparr>"

datatype outcome = Returned int | Raised exn

text \<open>
  The exit status of the process: \<open>raise SystemExit(main())\<close> exits with the integer
  returned; \<open>SystemExit\<close> with a message, and any exception that nothing catches, exit
  with 1.
\<close>

fun exit_status :: "outcome \<Rightarrow> int" where
  "exit_status (Returned n) = n"
| "exit_status (Raised e) = 1"

text \<open>
  The body of the loop for one file, in the three parts the source has: the \<open>try\<close>
  block, which resolves the remote path and requests the export; the handlers of its
  exceptions; and the statements after it, which write the target. The result of the
  body is \<open>None\<close> when the loop goes on to the next file, and the exception that leaves
  the loop otherwise.
\<close>

definition resolve_and_export ::
  "'r env \<Rightarrow> 'r client \<Rightarrow> path \<Rightarrow> string \<Rightarrow> path \<Rightarrow> 'r \<Rightarrow> (exn + string) \<times> 'r" where
  "resolve_and_export E client dropbox_root fmt paper_path r =
     (case compute_remote_path (resolve E) paper_path dropbox_root of
        Inl e \<Rightarrow> (Inl e, r)
      | Inr remote_path \<Rightarrow> export_paper client remote_path fmt r)"

definition write_target ::
  "path \<Rightarrow> path \<Rightarrow> string \<Rightarrow> path \<Rightarrow> string \<Rightarrow> 'r world \<Rightarrow> exn option \<times> 'r world" where
  "write_target paper_dir output_dir extension paper_path content w =
     (case relative_to paper_path paper_dir of
        Inl e \<Rightarrow> (Some e, w)
      | Inr rel \<Rightarrow>
          (case with_suffix rel extension of
             Inl e \<Rightarrow> (Some e, w)
           | Inr relative_target \<Rightarrow>
               (let target_path = joinpath output_dir relative_target in
                case mkdir (fs w) (parent target_path) of
                  Inl e \<Rightarrow> (Some e, w)
                | Inr fs1 \<Rightarrow>
                    (case write_text fs1 target_path content of
                       Inl e \<Rightarrow> (Some e, w\<lparr> fs := fs1 \<rparr>)
                     | Inr fs2 \<Rightarrow> (None, w\<lparr> fs := fs2 \<rparr>)))))"

definition process_file ::
  "'r env \<Rightarrow> 'r client \<Rightarrow> path \<Rightarrow> path \<Rightarrow> path \<Rightarrow> string \<Rightarrow> string \<Rightarrow> path \<Rightarrow> 'r world
     \<Rightarrow> exn option \<times> 'r world" where
  "process_file E client paper_dir output_dir dropbox_root fmt extension paper_path w =
     (let w1 = print (''Processing '' @ str_path paper_path) w;
          (attempt, r') = resolve_and_export E client dropbox_root fmt paper_path (remote w1);
          w2 = w1\<lparr> remote := r' \<rparr>
      in case attempt of
           Inl e \<Rightarrow>
             (case e of
                AuthError error \<Rightarrow>
                  (Some (SystemExit (''Dropbox authentication failed: '' @ error)), w2)
              | RuntimeError error \<Rightarrow> (None, print (''  Skipping: '' @ error) w2)
              | _ \<Rightarrow> (Some e, w2))
         | Inr content \<Rightarrow>
             write_target paper_dir output_dir extension paper_path content w2)"

fun main_loop ::
  "'r env \<Rightarrow> 'r client \<Rightarrow> path \<Rightarrow> path \<Rightarrow> path \<Rightarrow> string \<Rightarrow> string \<Rightarrow> path list \<Rightarrow> 'r world
     \<Rightarrow> outcome \<times> 'r world" where
  "main_loop E client paper_dir output_dir dropbox_root fmt extension [] w = (Returned 0, w)"
| "main_loop E client paper_dir output_dir dropbox_root fmt extension (paper_path # rest) w =
     (case process_file E client paper_dir output_dir dropbox_root fmt extension paper_path w of
        (Some e, w') \<Rightarrow> (Raised e, w')
      | (None, w') \<Rightarrow> main_loop E client paper_dir output_dir dropbox_root fmt extension rest w')"

definition main :: "'r env \<Rightarrow> args \<Rightarrow> 'r world \<Rightarrow> outcome \<times> 'r world" where
  "main E args w =
     (case expanduser (os_expanduser E) (args_paper_dir args) of
        Inl e \<Rightarrow> (Raised e, w)
      | Inr paper_dir \<Rightarrow>
     (case expanduser (os_expanduser E) (args_output_dir args) of
        Inl e \<Rightarrow> (Raised e, w)
      | Inr output_dir \<Rightarrow>
     (case expanduser (os_expanduser E) (args_dropbox_root args) of
        Inl e \<Rightarrow> (Raised e, w)
      | Inr dropbox_root \<Rightarrow>
     if \<not> is_dir (fs w) paper_dir then
       (Raised (SystemExit (''--paper-dir must point to a directory: '' @ str_path paper_dir)), w)
     else
       (let token = (case args_dropbox_token args of
                       None \<Rightarrow> environ E ''DROPBOX_ACCESS_TOKEN''
                     | Some t \<Rightarrow> if t \<noteq> [] then Some t else environ E ''DROPBOX_ACCESS_TOKEN'')
        in case token of
             None \<Rightarrow>
               (Raised (SystemExit (''Dropbox access token missing. ''
                  @ ''Provide --dropbox-token or set DROPBOX_ACCESS_TOKEN.'')), w)
           | Some t \<Rightarrow>
               if t = [] then
                 (Raised (SystemExit (''Dropbox access token missing. ''
                    @ ''Provide --dropbox-token or set DROPBOX_ACCESS_TOKEN.'')), w)
               else
                 (let client = Dropbox E t in
                  case mkdir (fs w) output_dir of
                    Inl e \<Rightarrow> (Raised e, w)
                  | Inr fs1 \<Rightarrow>
                      (let w1 = w\<lparr> fs := fs1 \<rparr>;
                           extension = (if args_format args = ''markdown'' then ''.md''
                                        else ''.html'');
                           paper_files = iter_paper_files (fs w1) paper_dir
                       in if paper_files = [] then
                            (Returned 0,
                             print (''No .paper files found under '' @ str_path paper_dir) w1)
                          else
                            main_loop E client paper_dir output_dir dropbox_root
                              (args_format args) extension paper_files w1))))))"

section \<open>What a run may do to an entry of the file system\<close>


section \<open>A machine to run the program on\<close>

text \<open>
  The working directory is \<open>/home/u\<close>, which is also the home directory. The remote
  service counts the calls it has answered; it holds the document
  \<open>/notes/a.paper\<close>, and the document \<open>/notes/d.paper\<close> whose content has a byte
  that is not UTF-8, refuses the credentials at \<open>/notes/c.paper\<close>, and does not find
  anything else.
\<close>

definition ex_resolve :: "path \<Rightarrow> path" where
  "ex_resolve p =
     (if root p = [] then \<lparr> root = ''/'', names = [''home'', ''u''] @ names p \<rparr> else p)"

definition ex_client :: "nat client" where
  "ex_client r remote_path export_format =
     (if remote_path = ''/notes/a.paper''
        then (Inr (\<lparr> name = None \<rparr>, ''hello''), Suc r)
      else if remote_path = ''/notes/c.paper''
        then (Inl (AuthError ''expired_access_token''), Suc r)
      else if remote_path = ''/notes/d.paper''
        then (Inr (\<lparr> name = Some ''Draft'' \<rparr>, [CHR 0x68, CHR 0xFF, CHR 0x69]), Suc r)
      else (Inl (ApiError ''path/not_found''), Suc r))"

definition ex_env :: "nat env" where
  "ex_env =
     \<lparr> resolve = ex_resolve,
       os_expanduser = (\<lambda>s. if s = ''~'' then ''/home/u'' else s),
       environ = (\<lambda>k. None),
       Dropbox = (\<lambda>token. ex_client) \<rparr>"

definition ex_path :: "string list \<Rightarrow> path" where
  "ex_path ns = \<lparr> root = [], names = ns \<rparr>"

definition ex_fs :: filesystem where
  "ex_fs =
     [(ex_path [''Dropbox''], Dir),
      (ex_path [''Dropbox'', ''notes''], Dir),
      (ex_path [''Dropbox'', ''notes'', ''c.paper''], File ''c''),
      (ex_path [''Dropbox'', ''notes'', ''a.paper''], File ''a''),
      (ex_path [''Dropbox'', ''notes'', ''b.paper''], File ''b''),
      (ex_path [''Dropbox'', ''notes'', ''readme.txt''], File ''r''),
      (ex_path [''tmp''], Dir),
      (ex_path [''tmp'', ''x.paper''], File ''x'')]"

definition ex_world :: "nat world" where
  "ex_world = \<lparr> stdout = [], fs = ex_fs, remote = 0 \<rparr>"

definition ex_args :: args where
  "ex_args =
     \<lparr> args_paper_dir = ex_path [''Dropbox''],
       args_output_dir = ex_path [''out''],
       args_dropbox_token = None,
       args_dropbox_root = ex_path [''~'', ''Dropbox''],
       args_format = ''markdown'' \<rparr>"

definition ex_root :: path where
  "ex_root = \<lparr> root = ''/'', names = [''home'', ''u'', ''Dropbox''] \<rparr>"

section \<open>Facts about paths\<close>

lemma split_no_sep: "c \<notin> set x \<Longrightarrow> split c x = [x]"
  by (induction x) auto

lemma split_append_sep: "c \<notin> set x \<Longrightarrow> split c (x @ c # s) = x # split c s"
  by (induction x) auto

lemma split_join:
  "ns \<noteq> [] \<Longrightarrow> list_all (\<lambda>x. c \<notin> set x) ns \<Longrightarrow> split c (join c ns) = ns"
proof (induction c ns rule: join.induct)
  case (1 c)
  then show ?case by simp
next
  case (2 c x)
  then show ?case by (simp add: split_no_sep)
next
  case (3 c x y ys)
  then show ?case by (simp add: split_append_sep)
qed

lemma hd_join: "ns \<noteq> [] \<Longrightarrow> hd ns \<noteq> [] \<Longrightarrow> hd (join c ns) = hd (hd ns)"
  by (induction c ns rule: join.induct) auto

lemma join_eq_Nil: "ns \<noteq> [] \<Longrightarrow> hd ns \<noteq> [] \<Longrightarrow> join c ns \<noteq> []"
  by (induction c ns rule: join.induct) auto

lemma parse_str_relative:
  assumes "list_all wf_name ns"
  shows "parse_path (str_path \<lparr> root = [], names = ns \<rparr>) = \<lparr> root = [], names = ns \<rparr>"
proof (cases "ns = []")
  case True
  then show ?thesis
    by (simp add: parse_path_def str_path_def splitroot_def)
next
  case False
  from False assms have h: "hd ns \<noteq> []" "CHR ''/'' \<notin> set (hd ns)"
    by (cases ns; simp add: wf_name_def)+
  have ne: "join CHR ''/'' ns \<noteq> []" using False h by (simp add: join_eq_Nil)
  have hdj: "hd (join CHR ''/'' ns) \<noteq> CHR ''/''"
  proof -
    have "hd (hd ns) \<in> set (hd ns)" using h(1) by (rule hd_in_set)
    with h(2) have "hd (hd ns) \<noteq> CHR ''/''" by auto
    with False h(1) show ?thesis by (simp add: hd_join)
  qed
  have sp: "split CHR ''/'' (join CHR ''/'' ns) = ns"
    using False assms by (intro split_join) (auto simp: list_all_iff wf_name_def)
  have flt: "filter (\<lambda>x. x \<noteq> [] \<and> x \<noteq> ''.'') ns = ns"
    using assms by (auto simp: list_all_iff wf_name_def intro: filter_True)
  show ?thesis
    using ne hdj sp flt by (simp add: parse_path_def str_path_def splitroot_def)
qed

lemma relative_to_joinpath:
  "root rel = [] \<Longrightarrow> relative_to (joinpath r rel) r = Inr rel"
  by (simp add: relative_to_def joinpath_def)

lemma relative_to_Inr_iff:
  "relative_to p q = Inr rel \<longleftrightarrow> (root rel = [] \<and> p = joinpath q rel)"
proof
  assume h: "relative_to p q = Inr rel"
  then have c: "root p = root q" "take (length (names q)) (names p) = names q"
    and r: "rel = \<lparr> root = [], names = drop (length (names q)) (names p) \<rparr>"
    by (auto simp add: relative_to_def split: if_splits)
  have "names q @ drop (length (names q)) (names p) = names p"
    using c(2) append_take_drop_id[of "length (names q)" "names p"] by simp
  with c(1) r show "root rel = [] \<and> p = joinpath q rel"
    by (simp add: joinpath_def)
next
  assume "root rel = [] \<and> p = joinpath q rel"
  then show "relative_to p q = Inr rel"
    by (simp add: relative_to_def joinpath_def)
qed

lemma compute_remote_path_outside:
  assumes "\<forall>rel. root rel = [] \<longrightarrow> resolve E local_file \<noteq> joinpath (resolve E dropbox_root) rel"
  shows "compute_remote_path (resolve E) local_file dropbox_root =
    Inl (RuntimeError
          (str_path local_file @ '' is not inside the Dropbox root '' @ str_path dropbox_root))"
proof (cases "relative_to (resolve E local_file) (resolve E dropbox_root)")
  case (Inl e)
  then show ?thesis by (simp add: compute_remote_path_def)
next
  case (Inr rel)
  then have "root rel = [] \<and> resolve E local_file = joinpath (resolve E dropbox_root) rel"
    by (simp add: relative_to_Inr_iff)
  with assms show ?thesis by blast
qed

section \<open>The path resolver: claims C1, C2 (first half) and C8\<close>

text \<open>
  Claim C1. A local file is contained within the remote root when its resolved path is
  the resolved root extended by a relative path \<open>rel\<close>; that \<open>rel\<close> is the file path
  relative to the remote root. For every such file \<open>compute_remote_path\<close> returns
  exactly \<open>/\<close> followed by the forward-slash form of \<open>rel\<close>.
\<close>

theorem compute_remote_path_contained:
  assumes "root rel = []"
    and "resolve E local_file = joinpath (resolve E dropbox_root) rel"
  shows "compute_remote_path (resolve E) local_file dropbox_root = Inr (''/'' @ as_posix rel)"
  using assms by (simp add: compute_remote_path_def relative_to_joinpath)

theorem compute_remote_path_contained_witness:
  "root (ex_path [''notes'', ''a.paper'']) = []
   \<and> resolve ex_env (ex_path [''Dropbox'', ''notes'', ''a.paper''])
       = joinpath (resolve ex_env ex_root)
           (ex_path [''notes'', ''a.paper''])
   \<and> compute_remote_path (resolve ex_env) (ex_path [''Dropbox'', ''notes'', ''a.paper''])
        ex_root = Inr ''/notes/a.paper''"
proof -
  have h1: "root (ex_path [''notes'', ''a.paper'']) = []"
    by (simp add: ex_path_def)
  have h2: "resolve ex_env (ex_path [''Dropbox'', ''notes'', ''a.paper''])
       = joinpath (resolve ex_env ex_root)
           (ex_path [''notes'', ''a.paper''])"
    by (simp add: ex_env_def ex_resolve_def ex_path_def joinpath_def ex_root_def)
  have "as_posix (ex_path [''notes'', ''a.paper'']) = ''notes/a.paper''"
    by (simp add: as_posix_def str_path_def ex_path_def)
  with compute_remote_path_contained [OF h1 h2] h1 h2 show ?thesis by simp
qed

text \<open>
  Claim C8. For every local path whose resolved form lies under the resolved remote
  root, at the relative path \<open>rel\<close>: the remote identifier starts with \<open>/\<close>, and the
  rest of it, read back as a path of the machine (whose separator is the forward slash
  already), is \<open>rel\<close>. The names of a resolved path are well formed: not empty, not
  \<open>.\<close>, without a slash. The round trip also holds for the root itself, where \<open>rel\<close>
  has no names.
\<close>

theorem remote_path_round_trip:
  assumes "wf_path (resolve E local_file)" and "root rel = []"
    and "resolve E local_file = joinpath (resolve E dropbox_root) rel"
  shows "\<exists>s. compute_remote_path (resolve E) local_file dropbox_root = Inr (CHR ''/'' # s)
           \<and> parse_path s = rel"
proof -
  have "list_all wf_name (names rel)"
    using assms by (simp add: wf_path_def joinpath_def)
  then have "parse_path (str_path \<lparr> root = [], names = names rel \<rparr>) = \<lparr> root = [], names = names rel \<rparr>"
    by (rule parse_str_relative)
  moreover have "\<lparr> root = [], names = names rel \<rparr> = rel" using assms(2) by simp
  ultimately have "parse_path (str_path rel) = rel" by simp
  then show ?thesis using assms(2,3)
    by (simp add: compute_remote_path_def relative_to_joinpath as_posix_def)
qed

theorem remote_path_round_trip_witness:
  "compute_remote_path (resolve ex_env) (ex_path [''Dropbox'', ''notes'', ''a.paper'']) ex_root
      = Inr (CHR ''/'' # ''notes/a.paper'')
   \<and> parse_path ''notes/a.paper'' = ex_path [''notes'', ''a.paper'']"
proof -
  have h1: "wf_path (resolve ex_env (ex_path [''Dropbox'', ''notes'', ''a.paper'']))"
    by (simp add: wf_path_def wf_name_def ex_env_def ex_resolve_def ex_path_def)
  have h2: "root (ex_path [''notes'', ''a.paper'']) = []" by (simp add: ex_path_def)
  have h3: "resolve ex_env (ex_path [''Dropbox'', ''notes'', ''a.paper''])
       = joinpath (resolve ex_env ex_root) (ex_path [''notes'', ''a.paper''])"
    by (simp add: ex_env_def ex_resolve_def ex_path_def joinpath_def ex_root_def)
  from remote_path_round_trip [OF h1 h2 h3]
  obtain s where s: "compute_remote_path (resolve ex_env) (ex_path [''Dropbox'', ''notes'', ''a.paper'']) ex_root = Inr (CHR ''/'' # s)"
     "parse_path s = ex_path [''notes'', ''a.paper'']" by blast
  have "compute_remote_path (resolve ex_env) (ex_path [''Dropbox'', ''notes'', ''a.paper'']) ex_root
      = Inr (CHR ''/'' # ''notes/a.paper'')" by code_simp
  with s show ?thesis by simp
qed

section \<open>The batch driver: skipping and aborting (claims C2, C3 and C9)\<close>

lemma process_file_path_error:
  assumes "compute_remote_path (resolve E) paper_path dropbox_root = Inl (RuntimeError msg)"
  shows "process_file E client paper_dir output_dir dropbox_root fmt extension paper_path w =
     (None, print (''  Skipping: '' @ msg) (print (''Processing '' @ str_path paper_path) w))"
  using assms by (simp add: process_file_def resolve_and_export_def Let_def print_def)

lemma main_loop_append:
  "main_loop E client pd od dr fmt ext (xs @ ys) w =
     (case main_loop E client pd od dr fmt ext xs w of
        (Returned n, w1) \<Rightarrow> main_loop E client pd od dr fmt ext ys w1
      | (Raised e, w1) \<Rightarrow> (Raised e, w1))"
proof (induction xs arbitrary: w)
  case Nil
  then show ?case by simp
next
  case (Cons x xs)
  show ?case
  proof (cases "process_file E client pd od dr fmt ext x w")
    case (Pair r w')
    then show ?thesis using Cons.IH[of w'] by (cases r) simp_all
  qed
qed

lemma process_file_auth:
  assumes "compute_remote_path (resolve E) f dr = Inr remote_path"
    and "client (remote w) remote_path fmt = (Inl (AuthError error), r')"
  shows "process_file E client pd od dr fmt ext f w =
     (Some (SystemExit (''Dropbox authentication failed: '' @ error)),
      (print (''Processing '' @ str_path f) w)\<lparr> remote := r' \<rparr>)"
  using assms
  by (simp add: process_file_def resolve_and_export_def Let_def print_def export_paper_def)

text \<open>
  Claim C2. For every local file that is not contained within the remote root (no
  relative path leads from the resolved root to the resolved file), resolving the remote
  identifier fails with the \<open>RuntimeError\<close> of the path resolver. In the loop that error
  is caught: the line \<open>Skipping\<close> with its message is printed after the line
  \<open>Processing\<close>, nothing else changes, and the run is the run of the remaining files,
  so it returns 0 unless one of them leaves the loop.
\<close>

theorem path_outside_root_is_skipped:
  assumes "\<forall>rel. root rel = [] \<longrightarrow> resolve E paper_path \<noteq> joinpath (resolve E dropbox_root) rel"
  shows "\<exists>msg. compute_remote_path (resolve E) paper_path dropbox_root = Inl (RuntimeError msg)
     \<and> main_loop E client paper_dir output_dir dropbox_root fmt extension (paper_path # rest) w
       = main_loop E client paper_dir output_dir dropbox_root fmt extension rest
           (print (''  Skipping: '' @ msg) (print (''Processing '' @ str_path paper_path) w))"
  using compute_remote_path_outside [OF assms]
  by (simp add: process_file_path_error)

theorem path_outside_root_is_skipped_witness:
  "main_loop ex_env ex_client (ex_path [''tmp'']) (ex_path [''out''])
       \<lparr> root = ''/'', names = [''home'', ''u'', ''Dropbox''] \<rparr> ''markdown'' ''.md''
       [ex_path [''tmp'', ''x.paper'']] ex_world
     = (Returned 0,
        ex_world \<lparr> stdout :=
          [''Processing tmp/x.paper'',
           ''  Skipping: tmp/x.paper is not inside the Dropbox root /home/u/Dropbox''] \<rparr>)"
proof -
  have h: "\<forall>rel. root rel = [] \<longrightarrow>
      resolve ex_env (ex_path [''tmp'', ''x.paper''])
        \<noteq> joinpath (resolve ex_env \<lparr> root = ''/'', names = [''home'', ''u'', ''Dropbox''] \<rparr>) rel"
    by (simp add: ex_env_def ex_resolve_def ex_path_def joinpath_def)
  have m: "compute_remote_path (resolve ex_env) (ex_path [''tmp'', ''x.paper''])
        \<lparr> root = ''/'', names = [''home'', ''u'', ''Dropbox''] \<rparr>
      = Inl (RuntimeError ''tmp/x.paper is not inside the Dropbox root /home/u/Dropbox'')"
    using compute_remote_path_outside [OF h] by (simp add: str_path_def ex_path_def)
  from path_outside_root_is_skipped [OF h, of ex_client "ex_path [''tmp'']" "ex_path [''out'']"
      "''markdown''" "''.md''" "[]" ex_world] m
  show ?thesis by (simp add: print_def ex_world_def str_path_def ex_path_def)
qed

text \<open>
  Claim C3. Let the files before file \<open>f\<close> be processed without leaving the loop,
  reaching the world \<open>w1\<close>, and let the remote call for \<open>f\<close> report an authentication
  failure. Then the run of the whole batch ends there with \<open>SystemExit\<close> and a message,
  so with a non-zero exit status; the file system is the one of \<open>w1\<close>, so what the
  earlier files wrote stays and nothing is written for \<open>f\<close>; and the files after \<open>f\<close>
  are not attempted: the only line printed after \<open>w1\<close> is the one for \<open>f\<close>, and the
  remote service is in the state the failing call left it in.
\<close>

theorem auth_failure_aborts:
  assumes "main_loop E client pd od dr fmt ext pre w = (Returned 0, w1)"
    and "compute_remote_path (resolve E) f dr = Inr remote_path"
    and "client (remote w1) remote_path fmt = (Inl (AuthError error), r')"
  shows "\<exists>w'. main_loop E client pd od dr fmt ext (pre @ f # post) w
            = (Raised (SystemExit (''Dropbox authentication failed: '' @ error)), w')
          \<and> exit_status (fst (main_loop E client pd od dr fmt ext (pre @ f # post) w)) \<noteq> 0
          \<and> fs w' = fs w1
          \<and> stdout w' = stdout w1 @ [''Processing '' @ str_path f]
          \<and> remote w' = r'"
  using assms
  by (simp add: main_loop_append process_file_auth print_def)

theorem auth_failure_aborts_witness:
  "fst (main_loop ex_env ex_client (ex_path [''Dropbox'']) (ex_path [''out'']) ex_root ''markdown'' ''.md''
       [ex_path [''Dropbox'', ''notes'', ''a.paper''], ex_path [''Dropbox'', ''notes'', ''c.paper''],
        ex_path [''Dropbox'', ''notes'', ''b.paper'']] ex_world)
     = Raised (SystemExit ''Dropbox authentication failed: expired_access_token'')"
proof -
  let ?run = "main_loop ex_env ex_client (ex_path [''Dropbox'']) (ex_path [''out'']) ex_root ''markdown'' ''.md''"
  let ?w1 = "snd (?run [ex_path [''Dropbox'', ''notes'', ''a.paper'']] ex_world)"
  have "fst (?run [ex_path [''Dropbox'', ''notes'', ''a.paper'']] ex_world) = Returned 0"
    by code_simp
  then have h1: "?run [ex_path [''Dropbox'', ''notes'', ''a.paper'']] ex_world = (Returned 0, ?w1)"
    by (metis prod.collapse)
  have h2: "compute_remote_path (resolve ex_env) (ex_path [''Dropbox'', ''notes'', ''c.paper'']) ex_root
      = Inr ''/notes/c.paper''"
    by code_simp
  have r: "remote ?w1 = 1" by code_simp
  have h3: "ex_client (remote ?w1) ''/notes/c.paper'' ''markdown''
      = (Inl (AuthError ''expired_access_token''), 2)"
    unfolding r by (simp add: ex_client_def)
  from auth_failure_aborts [OF h1 h2 h3, of "[ex_path [''Dropbox'', ''notes'', ''b.paper'']]"]
  show ?thesis by auto
qed

text \<open>
  Claim C9. If the token is absent from the flag and from the environment variable, the
  run ends with an exception, so with a non-zero exit status, and the world is the one
  it started in: no directory was created, no file was written, nothing was printed on
  the standard output and the remote service was not called.
\<close>

theorem missing_token_aborts:
  assumes "args_dropbox_token args = None" and "environ E ''DROPBOX_ACCESS_TOKEN'' = None"
  shows "\<exists>e. main E args w = (Raised e, w) \<and> exit_status (fst (main E args w)) \<noteq> 0"
  using assms
  by (auto simp add: main_def Let_def split: sum.splits)

theorem missing_token_aborts_witness:
  "main ex_env ex_args ex_world =
     (Raised (SystemExit
        ''Dropbox access token missing. Provide --dropbox-token or set DROPBOX_ACCESS_TOKEN.''),
      ex_world)"
proof -
  have h1: "args_dropbox_token ex_args = None" by (simp add: ex_args_def)
  have h2: "environ ex_env ''DROPBOX_ACCESS_TOKEN'' = None" by (simp add: ex_env_def)
  from missing_token_aborts [OF h1 h2, of ex_world]
  obtain e where e: "main ex_env ex_args ex_world = (Raised e, ex_world)" by blast
  have "fst (main ex_env ex_args ex_world) = Raised (SystemExit
        ''Dropbox access token missing. Provide --dropbox-token or set DROPBOX_ACCESS_TOKEN.'')"
    by code_simp
  with e show ?thesis by simp
qed

section \<open>The export requester: claims C4 and C5\<close>

subsection \<open>The last segment of a remote path\<close>

lemma split_ne: "split c s \<noteq> []"
  by (induction s) (auto split: list.splits)

lemma tl_split_Nil: "tl (split c s) = [] \<longleftrightarrow> c \<notin> set s"
proof (induction s)
  case Nil
  then show ?case by simp
next
  case (Cons x xs)
  then show ?case using split_ne[of c xs] by (auto split: list.splits)
qed

lemma last_split: "last (split c s) = rev (takeWhile (\<lambda>x. x \<noteq> c) (rev s))"
proof (induction s)
  case Nil
  then show ?case by simp
next
  case (Cons x xs)
  show ?case
  proof (cases "x = c")
    case True
    then show ?thesis using Cons split_ne[of c xs] by (simp add: takeWhile_append)
  next
    case False
    show ?thesis
    proof (cases "c \<in> set xs")
      case True
      then have t: "tl (split c xs) \<noteq> []" by (simp add: tl_split_Nil)
      then obtain y ys where s: "split c xs = y # ys" "ys \<noteq> []"
        by (cases "split c xs") auto
      have "last (split c (x # xs)) = last (split c xs)"
        using False s by simp
      moreover have "takeWhile (\<lambda>x. x \<noteq> c) (rev xs @ [x]) = takeWhile (\<lambda>x. x \<noteq> c) (rev xs)"
        using True by (auto simp add: takeWhile_append)
      ultimately show ?thesis using Cons by simp
    next
      case False
      then show ?thesis using \<open>x \<noteq> c\<close> by (simp add: split_no_sep takeWhile_append)
    qed
  qed
qed

lemma last_rsplit1: "last (rsplit1 c s) = last (split c s)"
proof (cases "c \<in> set s")
  case True
  then show ?thesis by (simp add: rsplit1_def last_split)
next
  case False
  then have "last (rsplit1 c s) = s" by (simp add: rsplit1_def)
  moreover have "last (split c s) = s" using False by (simp add: split_no_sep)
  ultimately show ?thesis by simp
qed

subsection \<open>The two decoders\<close>

lemma utf8_scan_bounds:
  assumes "utf8_scan (c # s) = (ok, n)"
  shows "1 \<le> n \<and> n \<le> Suc (length s)"
  using assms
  by (auto simp add: utf8_scan_def Let_def split: if_splits list.splits)

lemma take_drop_scan:
  assumes "utf8_scan (c # s) = (ok, n)"
  shows "take n (c # s) @ drop (n - 1) s = c # s"
proof -
  from utf8_scan_bounds [OF assms] obtain m where m: "n = Suc m" by (cases n) auto
  then show ?thesis by simp
qed

lemma decode_strict_Some: "decode_strict s = Some t \<Longrightarrow> t = s"
proof (induction s arbitrary: t rule: decode_strict.induct)
  case 1
  then show ?case by simp
next
  case (2 c s)
  obtain ok n where sc: "utf8_scan (c # s) = (ok, n)" by (cases "utf8_scan (c # s)")
  with "2.prems" have ok: ok by (auto split: if_splits)
  with sc "2.prems" obtain t' where t': "decode_strict (drop (n - 1) s) = Some t'"
      "t = take n (c # s) @ t'"
    by auto
  from "2.IH" [OF sc [symmetric] refl ok t'(1)] have "t' = drop (n - 1) s" .
  with t'(2) take_drop_scan [OF sc] show ?case by simp
qed

lemma decode_replace_valid: "decode_strict s = Some t \<Longrightarrow> decode_replace s = s"
proof (induction s arbitrary: t rule: decode_strict.induct)
  case 1
  then show ?case by simp
next
  case (2 c s)
  obtain ok n where sc: "utf8_scan (c # s) = (ok, n)" by (cases "utf8_scan (c # s)")
  with "2.prems" have ok: ok by (auto split: if_splits)
  with sc "2.prems" obtain t' where t': "decode_strict (drop (n - 1) s) = Some t'"
    by auto
  from "2.IH" [OF sc [symmetric] refl ok t'] have "decode_replace (drop (n - 1) s) = drop (n - 1) s" .
  with sc ok take_drop_scan [OF sc] show ?case by simp
qed







text \<open>
  Claim C4. Whenever the remote service answers the call with metadata and content, the
  export succeeds and the string returned is exactly the heading line, a line feed that
  ends it, a second line feed (the blank line), and the decoded text. The heading line
  is \<open>#\<close>, a space, the title and, for a format that is not empty, the format in the
  words \<open>(exported as ...)\<close>; the title is the name the metadata reports or, without
  one, the last segment of the remote path cut at its slashes. The decoded text is what
  \<open>decode_replace\<close> makes of the content, which for well-formed content is the
  content.
\<close>

theorem export_paper_heading:
  assumes "client r remote_path export_format = (Inr (md, content), r')"
  shows "export_paper client remote_path export_format r =
     (Inr ((''# '' @ (case name md of Some t \<Rightarrow> t | None \<Rightarrow> last (split CHR ''/'' remote_path))
              @ (if export_format = [] then [] else '' (exported as '' @ export_format @ '')''))
           @ [CHR 0x0A] @ [CHR 0x0A] @ decode_replace content), r')"
proof -
  have dec: "(case decode_strict content of Some t \<Rightarrow> t | None \<Rightarrow> decode_replace content)
      = decode_replace content"
  proof (cases "decode_strict content")
    case None
    then show ?thesis by simp
  next
    case (Some t)
    from decode_strict_Some [OF Some] decode_replace_valid [OF Some] Some
    show ?thesis by simp
  qed
  have title: "(case name md of Some n \<Rightarrow> n | None \<Rightarrow> last (rsplit1 CHR ''/'' remote_path))
      = (case name md of Some t \<Rightarrow> t | None \<Rightarrow> last (split CHR ''/'' remote_path))"
    by (simp add: last_rsplit1 split: option.splits)
  show ?thesis
    using assms by (simp add: export_paper_def Let_def dec title)
qed

theorem export_paper_heading_witness:
  "export_paper ex_client ''/notes/a.paper'' ''markdown'' 0
       = (Inr (''# a.paper (exported as markdown)'' @ [CHR 0x0A] @ [CHR 0x0A] @ ''hello''), Suc 0)"
proof -
  have h: "ex_client 0 ''/notes/a.paper'' ''markdown''
      = (Inr (\<lparr> name = None \<rparr>, ''hello''), Suc 0)"
    by (simp add: ex_client_def)
  have t: "last (split CHR ''/'' ''/notes/a.paper'') = ''a.paper''" by simp
  have d: "decode_replace ''hello'' = ''hello''" by code_simp
  from export_paper_heading [where client = ex_client and r = 0, OF h] t d
  show ?thesis by simp
qed



section \<open>The batch driver: discovery and order of processing (claim C7)\<close>

subsection \<open>Matching and discovery\<close>
















subsection \<open>What a run prints\<close>







section \<open>The batch driver: what a run changes (claim C10)\<close>



lemma lookup_update:
  "lookup (AList.update p v F) q
     = (if names q = [] then Some Dir else if q = p then Some v else lookup F q)"
  by (simp add: lookup_def AList.update_conv')

lemma mkdir_Inr_cases:
  assumes "mkdir F p = Inr F'"
  shows "lookup F p = Some Dir \<and> F' = F
       \<or> lookup F p = None \<and> (\<exists>F''. mkdir F (parent p) = Inr F'' \<and> F' = AList.update p Dir F'')"
proof -
  from assms have "(case lookup F p of
        Some Dir \<Rightarrow> Inr F
      | Some (File _) \<Rightarrow> Inl (OSError (''File exists: '' @ str_path p))
      | None \<Rightarrow>
          (case mkdir F (parent p) of
             Inl e \<Rightarrow> Inl e
           | Inr fs' \<Rightarrow> Inr (AList.update p Dir fs'))) = Inr F'"
    by (subst (asm) mkdir.simps) assumption
  then show ?thesis
    by (cases "lookup F p"; cases "mkdir F (parent p)")
       (auto simp del: mkdir.simps split: node.splits)
qed


lemma mkdir_is_dir: "mkdir F p = Inr F' \<Longrightarrow> lookup F' p = Some Dir"
  using mkdir_Inr_cases [of F p F'] by (auto simp add: lookup_update)













end
